theory Spec2Isabelle
  imports Main "HOL-Library.Char_ord" "HOL-Library.List_Lexorder" "HOL-Library.Multiset"
begin

section \<open>Strings and plain objects\<close>

text \<open>
  Strings are lists of 8-bit code units, compared lexicographically unit by unit as the
  relational operators of the language do. \<open>trim\<close> removes white space at both ends.
\<close>

definition isWhiteSpace :: "char \<Rightarrow> bool" where
  "isWhiteSpace c \<longleftrightarrow>
     c \<in> set [CHR 0x09, CHR 0x0A, CHR 0x0B, CHR 0x0C, CHR 0x0D, CHR 0x20, CHR 0xA0]"

definition trim :: "string \<Rightarrow> string" where
  "trim s = rev (dropWhile isWhiteSpace (rev (dropWhile isWhiteSpace s)))"

text \<open>
  A \<open>Translations\<close> object is the association list of its own properties, in the order
  \<open>Object.keys\<close> reports them: array-index keys first, in numeric order, then the other
  keys in order of creation. A well-formed object has distinct keys. \<open>objectGet\<close> reads
  an own property and is used where the key comes from \<open>Object.keys\<close> of the same object.
\<close>

type_synonym translationMap = "(string \<times> string) list"

definition objectKeys :: "translationMap \<Rightarrow> string list" where
  "objectKeys t = map fst t"

definition objectGet :: "translationMap \<Rightarrow> string \<Rightarrow> string option" where
  "objectGet t k = map_of t k"

definition isDigit :: "char \<Rightarrow> bool" where
  "isDigit c \<longleftrightarrow> CHR ''0'' \<le> c \<and> c \<le> CHR ''9''"

definition digitsValue :: "string \<Rightarrow> nat" where
  "digitsValue k = foldl (\<lambda>n c. 10 * n + (of_char c - 48)) 0 k"

text \<open>An array index is the canonical decimal form of an integer below \<open>2^32 - 1\<close>.\<close>

definition isArrayIndex :: "string \<Rightarrow> bool" where
  "isArrayIndex k \<longleftrightarrow>
     k \<noteq> [] \<and> list_all isDigit k \<and> (length k = 1 \<or> hd k \<noteq> CHR ''0'')
     \<and> digitsValue k < 4294967295"

fun insertProperty :: "translationMap \<Rightarrow> string \<Rightarrow> string \<Rightarrow> translationMap" where
  "insertProperty [] k v = [(k, v)]"
| "insertProperty ((k', v') # t) k v =
     (if isArrayIndex k \<and> (\<not> isArrayIndex k' \<or> digitsValue k < digitsValue k')
      then (k, v) # (k', v') # t
      else (k', v') # insertProperty t k v)"

text \<open>
  \<open>objectSet\<close> is the assignment \<open>obj[key] = value\<close> for a key that the object owns or
  that does not name an accessor of \<open>Object.prototype\<close>: an own property keeps its place
  and takes the value, a new one is created at its place in the key order.
\<close>

definition objectSet :: "translationMap \<Rightarrow> string \<Rightarrow> string \<Rightarrow> translationMap" where
  "objectSet t k v =
     (if k \<in> set (objectKeys t)
      then map (\<lambda>(k', v'). if k' = k then (k', v) else (k', v')) t
      else insertProperty t k v)"

text \<open>
  The assignment in general: \<open>__proto__\<close> is an accessor of \<open>Object.prototype\<close>, so
  assigning a string to it on an object that does not own such a property runs the
  inherited setter, which ignores a string, and no property is created.
\<close>

definition assignProperty :: "translationMap \<Rightarrow> string \<Rightarrow> string \<Rightarrow> translationMap" where
  "assignProperty t k v =
     (if k = ''__proto__'' \<and> k \<notin> set (objectKeys t) then t else objectSet t k v)"

text \<open>
  A read \<open>obj[key]\<close> with an arbitrary key goes on to \<open>Object.prototype\<close> when the
  object has no own property of that name. The result is then a member of the prototype:
  a function, or for \<open>__proto__\<close> the prototype object itself.
\<close>

datatype jsValue = Str string | Inherited string

definition objectPrototypeNames :: "string list" where
  "objectPrototypeNames =
     [''constructor'', ''__defineGetter__'', ''__defineSetter__'', ''hasOwnProperty'',
      ''__lookupGetter__'', ''__lookupSetter__'', ''isPrototypeOf'', ''propertyIsEnumerable'',
      ''toString'', ''valueOf'', ''__proto__'', ''toLocaleString'']"

definition propertyRead :: "translationMap \<Rightarrow> string \<Rightarrow> jsValue option" where
  "propertyRead t k =
     (case objectGet t k of
        Some v \<Rightarrow> Some (Str v)
      | None \<Rightarrow> if k \<in> set objectPrototypeNames then Some (Inherited k) else None)"

text \<open>
  The idiom \<open>obj[key] || ''\<close>: \<open>undefined\<close> and the empty string give the empty string,
  every other value, an inherited member included, is passed on.
\<close>

definition valueOrEmpty :: "translationMap \<Rightarrow> string \<Rightarrow> jsValue" where
  "valueOrEmpty t k =
     (case propertyRead t k of
        None \<Rightarrow> Str []
      | Some (Str v) \<Rightarrow> if v = [] then Str [] else Str v
      | Some (Inherited n) \<Rightarrow> Inherited n)"

record languageEntry =
  LanguageTwoLetter :: string
  Translations :: translationMap

section \<open>Markup trees and what the browser provides\<close>

datatype node =
    Element string "(string \<times> string) list" "node list"
  | TextNode string
  | Comment string

fun textContent :: "node \<Rightarrow> string" where
  "textContent (Element tg as cs) = concat (map textContent cs)"
| "textContent (TextNode s) = s"
| "textContent (Comment s) = []"

text \<open>
  The regular-expression engine, the two markup parsers, the serializer behind
  \<open>innerHTML\<close> and \<open>toLowerCase\<close> belong to the browser and are parameters of the model.
  \<open>newRegExp_gi p\<close> is \<open>None\<close> when \<open>new RegExp(p, 'gi')\<close> throws, and otherwise the
  predicate \<open>test\<close> computes from \<open>lastIndex = 0\<close>. A parser returns the child nodes
  of the element it fills, tags in lower case. \<open>inheritedToString n\<close> is the string the
  member \<open>n\<close> of \<open>Object.prototype\<close> converts to.
\<close>

record browser =
  newRegExp_gi :: "string \<Rightarrow> (string \<Rightarrow> bool) option"
  innerHTMLParse :: "string \<Rightarrow> node list"
  domParse :: "string \<Rightarrow> node list"
  innerHTMLSerialize :: "node list \<Rightarrow> string"
  toLowerCase :: "string \<Rightarrow> string"
  inheritedToString :: "string \<Rightarrow> string"

text \<open>The conversion to a string that assigning a value to \<open>innerHTML\<close> performs.\<close>

definition toDisplayString :: "browser \<Rightarrow> jsValue \<Rightarrow> string" where
  "toDisplayString b v = (case v of Str s \<Rightarrow> s | Inherited n \<Rightarrow> inheritedToString b n)"

definition getTextFromHTML :: "browser \<Rightarrow> string \<Rightarrow> string" where
  "getTextFromHTML b html = concat (map textContent (innerHTMLParse b html))"

section \<open>Application state\<close>

datatype direction = Asc | Desc

datatype error = TypeError

record pagination =
  currentPage :: int
  rowsPerPage :: nat

text \<open>
  The structure \<open>extractHTMLAttributes\<close> records: a block entry is \<open>None\<close> for the
  \<open>null\<close> placeholder.
\<close>

record blockElement =
  blockTag :: string
  blockAttrs :: "(string \<times> string) list"
  blockText :: string

record inlineElement =
  originalTag :: string
  attrs :: "(string \<times> string) list"
  inlineText :: string
  parentTextContent :: string

record htmlStructure =
  blockElements :: "blockElement option list"
  inlineElements :: "inlineElement list"

record editContext =
  editKey :: string
  langIndex :: nat
  originalValue :: string
  originalAttributes :: htmlStructure
  originalText :: string
  codeViewInitialHTML :: "string option"

record app =
  originalDataSource :: "languageEntry list"
  modifiedDataSource :: "languageEntry list"
  hasUnsavedChanges :: bool
  searchQuery :: string
  sortState :: "(nat \<times> direction) option"
  collapsedColumns :: "nat set"
  isSearchActive :: bool
  pageState :: pagination
  currentEditContext :: "editContext option"
  isCodeViewActive :: bool

section \<open>Search\<close>

definition regexSpecial :: "char \<Rightarrow> bool" where
  "regexSpecial c \<longleftrightarrow> c \<in> set (''.*+?^${}()|[]'' @ [CHR 0x5C])"

definition escapeRegExp :: "string \<Rightarrow> string" where
  "escapeRegExp q = concat (map (\<lambda>c. if regexSpecial c then [CHR 0x5C, c] else [c]) q)"

definition filterStep ::
  "(string \<Rightarrow> bool) \<Rightarrow> translationMap \<Rightarrow> translationMap \<Rightarrow> string \<Rightarrow> translationMap" where
  "filterStep regex t filteredTranslations k =
     (case objectGet t k of
        None \<Rightarrow> filteredTranslations
      | Some v \<Rightarrow>
          (let keyMatch = regex k; valueMatch = regex v
           in if keyMatch \<or> valueMatch then assignProperty filteredTranslations k v
              else filteredTranslations))"

definition filterTranslations :: "(string \<Rightarrow> bool) \<Rightarrow> translationMap \<Rightarrow> translationMap" where
  "filterTranslations regex t = foldl (filterStep regex t) [] (objectKeys t)"

definition getSearchResults :: "browser \<Rightarrow> app \<Rightarrow> languageEntry list" where
  "getSearchResults b st =
     (if trim (searchQuery st) = [] then modifiedDataSource st
      else case newRegExp_gi b (escapeRegExp (searchQuery st)) of
             None \<Rightarrow> modifiedDataSource st
           | Some regex \<Rightarrow>
               map (\<lambda>lang. \<lparr>LanguageTwoLetter = LanguageTwoLetter lang,
                             Translations = filterTranslations regex (Translations lang)\<rparr>)
                   (modifiedDataSource st))"

section \<open>Key enumeration, sorting, pagination\<close>

definition setAdd :: "string list \<Rightarrow> string \<Rightarrow> string list" where
  "setAdd keysSet k = (if k \<in> set keysSet then keysSet else keysSet @ [k])"

definition getAllKeys :: "languageEntry list \<Rightarrow> string list" where
  "getAllKeys data =
     foldl (\<lambda>keysSet lang. foldl setAdd keysSet (objectKeys (Translations lang))) [] data"

definition sortText :: "browser \<Rightarrow> languageEntry list \<Rightarrow> nat \<Rightarrow> string \<Rightarrow> string" where
  "sortText b ds columnIndex k =
     toLowerCase b (getTextFromHTML b
       (toDisplayString b (valueOrEmpty (Translations (ds ! columnIndex)) k)))"

definition compareKeys ::
  "browser \<Rightarrow> languageEntry list \<Rightarrow> nat \<Rightarrow> direction \<Rightarrow> string \<Rightarrow> string \<Rightarrow> int" where
  "compareKeys b ds columnIndex sortDirection keyA keyB =
     (let textA = sortText b ds columnIndex keyA; textB = sortText b ds columnIndex keyB
      in if textA < textB then (if sortDirection = Asc then - 1 else 1)
         else if textA > textB then (if sortDirection = Asc then 1 else - 1)
         else 0)"

text \<open>
  \<open>Array.prototype.sort\<close> is stable; with a consistent comparator its result is the
  one a stable insertion sort computes.
\<close>

fun insertSorted :: "('a \<Rightarrow> 'a \<Rightarrow> int) \<Rightarrow> 'a \<Rightarrow> 'a list \<Rightarrow> 'a list" where
  "insertSorted cmp x [] = [x]"
| "insertSorted cmp x (y # ys) =
     (if cmp x y \<le> 0 then x # y # ys else y # insertSorted cmp x ys)"

definition arraySort :: "('a \<Rightarrow> 'a \<Rightarrow> int) \<Rightarrow> 'a list \<Rightarrow> 'a list" where
  "arraySort cmp xs = foldr (insertSorted cmp) xs []"

text \<open>
  The comparator reads \<open>modifiedDataSource[columnIndex].Translations\<close>; with no such
  entry that read throws as soon as two keys are compared.
\<close>

definition applySortingToKeys :: "browser \<Rightarrow> app \<Rightarrow> string list \<Rightarrow> error + string list" where
  "applySortingToKeys b st keys =
     (case sortState st of
        None \<Rightarrow> Inr keys
      | Some (columnIndex, sortDirection) \<Rightarrow>
          if columnIndex < length (modifiedDataSource st)
          then Inr (arraySort (compareKeys b (modifiedDataSource st) columnIndex sortDirection) keys)
          else if length keys < 2 then Inr keys
          else Inl TypeError)"

definition arraySlice :: "'a list \<Rightarrow> int \<Rightarrow> int \<Rightarrow> 'a list" where
  "arraySlice xs start fin =
     (let len = int (length xs);
          k = (if start < 0 then max (len + start) 0 else min start len);
          final = (if fin < 0 then max (len + fin) 0 else min fin len)
      in take (nat (final - k)) (drop (nat k) xs))"

section \<open>Rendering\<close>

record cell =
  columnIndex :: nat
  cellValue :: string
  collapsed :: bool

record row =
  rowKey :: string
  cells :: "cell list"

text \<open>\<open>cellValue\<close> is the string the cell's \<open>innerHTML\<close> receives.\<close>

definition renderRow :: "browser \<Rightarrow> app \<Rightarrow> string \<Rightarrow> row" where
  "renderRow b st k =
     \<lparr>rowKey = k,
      cells = map (\<lambda>(lang, i). \<lparr>columnIndex = i,
                                  cellValue = toDisplayString b (valueOrEmpty (Translations lang) k),
                                  collapsed = (i \<in> collapsedColumns st)\<rparr>)
                  (zip (modifiedDataSource st) [0 ..< length (modifiedDataSource st)])\<rparr>"

definition renderTableBody :: "browser \<Rightarrow> app \<Rightarrow> languageEntry list \<Rightarrow> error + (row list \<times> nat)" where
  "renderTableBody b st data =
     (if length data = 0 then Inr ([], 0)
      else
        let allKeys = getAllKeys data;
            totalRows = length allKeys
        in case applySortingToKeys b st allKeys of
             Inl e \<Rightarrow> Inl e
           | Inr sortedKeys \<Rightarrow>
               (let startIndex = (currentPage (pageState st) - 1) * int (rowsPerPage (pageState st));
                    endIndex = startIndex + int (rowsPerPage (pageState st));
                    paginatedKeys = arraySlice sortedKeys startIndex endIndex
                in Inr (map (renderRow b st) paginatedKeys, totalRows)))"

text \<open>\<open>Math.ceil(totalRows / rowsPerPage)\<close>, with the two results of a division by zero.\<close>

datatype pageCount = Finite nat | PosInfinity | NaN

definition ceilDiv :: "nat \<Rightarrow> nat \<Rightarrow> pageCount" where
  "ceilDiv totalRows perPage =
     (if perPage = 0 then (if totalRows = 0 then NaN else PosInfinity)
      else Finite ((totalRows + perPage - 1) div perPage))"

fun exceeds :: "int \<Rightarrow> pageCount \<Rightarrow> bool" where
  "exceeds page (Finite n) = (page > int n)"
| "exceeds page PosInfinity = False"
| "exceeds page NaN = False"

record tableView =
  rows :: "row list"
  totalRows :: nat
  totalPages :: pageCount

definition dataToRender :: "browser \<Rightarrow> app \<Rightarrow> languageEntry list" where
  "dataToRender b st = (if isSearchActive st then getSearchResults b st else modifiedDataSource st)"

definition renderTable :: "browser \<Rightarrow> app \<Rightarrow> error + tableView" where
  "renderTable b st =
     (case renderTableBody b st (dataToRender b st) of
        Inl e \<Rightarrow> Inl e
      | Inr (rs, n) \<Rightarrow>
          Inr \<lparr>rows = rs, totalRows = n, totalPages = ceilDiv n (rowsPerPage (pageState st))\<rparr>)"

section \<open>State transitions\<close>

text \<open>
  Each handler is a function on the state; the handlers below end by repainting the table,
  which is \<open>renderTable\<close> of the state they return.
\<close>

definition closeEditModal :: "app \<Rightarrow> app" where
  "closeEditModal st = st\<lparr>currentEditContext := None, isCodeViewActive := False\<rparr>"

definition closeIfEditing :: "app \<Rightarrow> app" where
  "closeIfEditing st = (if currentEditContext st \<noteq> None then closeEditModal st else st)"

definition performSearch :: "string \<Rightarrow> app \<Rightarrow> app" where
  "performSearch query st =
     (let st1 = closeIfEditing st;
          st2 = st1\<lparr>searchQuery := query, isSearchActive := (trim query \<noteq> [])\<rparr>;
          st3 = (if isSearchActive st2 then st2\<lparr>sortState := None\<rparr> else st2)
      in st3\<lparr>pageState := (pageState st3)\<lparr>currentPage := 1\<rparr>\<rparr>)"

definition goToPage :: "browser \<Rightarrow> int \<Rightarrow> app \<Rightarrow> app" where
  "goToPage b page st =
     (let totalRows = length (getAllKeys (dataToRender b st));
          totalPages = ceilDiv totalRows (rowsPerPage (pageState st))
      in if page < 1 \<or> exceeds page totalPages then st
         else (let st1 = closeIfEditing st
               in st1\<lparr>pageState := (pageState st1)\<lparr>currentPage := page\<rparr>\<rparr>))"

definition handleRowsPerPageChange :: "nat \<Rightarrow> app \<Rightarrow> app" where
  "handleRowsPerPageChange newRowsPerPage st =
     (let st1 = closeIfEditing st
      in st1\<lparr>pageState := \<lparr>currentPage = 1, rowsPerPage = newRowsPerPage\<rparr>\<rparr>)"

definition handleDiscardChanges :: "app \<Rightarrow> app" where
  "handleDiscardChanges st =
     closeIfEditing (st\<lparr>modifiedDataSource := originalDataSource st, hasUnsavedChanges := False\<rparr>)"

definition cycleSortState :: "nat \<Rightarrow> app \<Rightarrow> app" where
  "cycleSortState i st =
     (case sortState st of
        Some (j, Asc) \<Rightarrow> if j = i then st\<lparr>sortState := Some (i, Desc)\<rparr>
                         else st\<lparr>sortState := Some (i, Asc)\<rparr>
      | Some (j, Desc) \<Rightarrow> if j = i then st\<lparr>sortState := None\<rparr>
                          else st\<lparr>sortState := Some (i, Asc)\<rparr>
      | None \<Rightarrow> st\<lparr>sortState := Some (i, Asc)\<rparr>)"

definition toggleColumnCollapse :: "nat \<Rightarrow> app \<Rightarrow> app" where
  "toggleColumnCollapse i st =
     (if i \<in> collapsedColumns st then st\<lparr>collapsedColumns := collapsedColumns st - {i}\<rparr>
      else st\<lparr>collapsedColumns := insert i (collapsedColumns st)\<rparr>)"

section \<open>Markup structure: extraction\<close>

definition blockTags :: "string list" where
  "blockTags = [''p'', ''div'', ''section'', ''article'', ''header'', ''footer'', ''main'',
                ''aside'', ''nav'', ''figure'', ''figcaption'', ''address'', ''details'',
                ''summary'', ''blockquote'', ''pre'', ''h1'', ''h2'', ''h3'', ''h4'', ''h5'', ''h6'']"

definition inlineTags :: "string list" where
  "inlineTags = [''span'', ''a'', ''abbr'', ''cite'', ''code'', ''mark'', ''time'']"

definition startsWith :: "string \<Rightarrow> string \<Rightarrow> bool" where
  "startsWith s pre = (take (length pre) s = pre)"

definition getPreservableAttrs :: "(string \<times> string) list \<Rightarrow> (string \<times> string) list" where
  "getPreservableAttrs as =
     (let a1 = (case map_of as ''id'' of Some v \<Rightarrow> objectSet [] ''id'' v | None \<Rightarrow> []);
          a2 = (case map_of as ''class'' of Some v \<Rightarrow> objectSet a1 ''class'' v | None \<Rightarrow> a1)
      in foldl (\<lambda>acc (n, v). if startsWith n ''data-'' then objectSet acc n v else acc) a2 as)"

fun blockEntry :: "node \<Rightarrow> blockElement option list" where
  "blockEntry (Element tagName as cs) =
     (if tagName \<in> set blockTags then
        (let preserved = getPreservableAttrs as;
             hasAttrsToPreserve = (preserved \<noteq> []);
             isNonDefaultTag = (tagName \<noteq> ''p'')
         in if hasAttrsToPreserve \<or> isNonDefaultTag
            then [Some \<lparr>blockTag = tagName, blockAttrs = preserved,
                        blockText = trim (textContent (Element tagName as cs))\<rparr>]
            else [None])
      else [])"
| "blockEntry n = []"

text \<open>All elements below a node in document order, each with the text of its parent element.\<close>

fun allElements :: "string \<Rightarrow> node \<Rightarrow> (node \<times> string) list" where
  "allElements parentText (Element tg as cs) =
     (Element tg as cs, parentText)
       # concat (map (allElements (textContent (Element tg as cs))) cs)"
| "allElements parentText n = []"

definition bodyElements :: "node list \<Rightarrow> (node \<times> string) list" where
  "bodyElements body = concat (map (allElements (concat (map textContent body))) body)"

fun inlineEntry :: "node \<times> string \<Rightarrow> inlineElement list" where
  "inlineEntry (Element tagName as cs, parentText) =
     (if tagName \<in> set inlineTags then
        (let preserved = getPreservableAttrs as
         in if preserved \<noteq> [] \<or> tagName \<noteq> ''span''
            then [\<lparr>originalTag = tagName, attrs = preserved,
                   inlineText = trim (textContent (Element tagName as cs)),
                   parentTextContent = trim parentText\<rparr>]
            else [])
      else [])"
| "inlineEntry (n, parentText) = []"

definition extractHTMLAttributes :: "browser \<Rightarrow> string \<Rightarrow> htmlStructure" where
  "extractHTMLAttributes b html =
     (if html = [] \<or> trim html = [] then \<lparr>blockElements = [], inlineElements = []\<rparr>
      else (let body = domParse b html
            in \<lparr>blockElements = concat (map blockEntry body),
                inlineElements = concat (map inlineEntry (bodyElements body))\<rparr>))"

definition hasPreservableStructure :: "htmlStructure option \<Rightarrow> bool" where
  "hasPreservableStructure s =
     (case s of
        None \<Rightarrow> False
      | Some str \<Rightarrow> list_ex (\<lambda>el. el \<noteq> None) (blockElements str) \<or> inlineElements str \<noteq> [])"

section \<open>Markup structure: reapplication\<close>

text \<open>
  An element of the parsed document is addressed by its path of child positions from the
  body. \<open>forestPaths\<close> lists the paths of all elements in document order.
\<close>

fun nodePaths :: "node \<Rightarrow> nat list list"
  and forestPathsFrom :: "nat \<Rightarrow> node list \<Rightarrow> nat list list" where
  "nodePaths (Element tg as cs) = [] # forestPathsFrom 0 cs"
| "nodePaths (TextNode s) = []"
| "nodePaths (Comment s) = []"
| "forestPathsFrom i [] = []"
| "forestPathsFrom i (c # cs) = map ((#) i) (nodePaths c) @ forestPathsFrom (Suc i) cs"

definition forestPaths :: "node list \<Rightarrow> nat list list" where
  "forestPaths ns = forestPathsFrom 0 ns"

fun childrenOf :: "node \<Rightarrow> node list" where
  "childrenOf (Element tg as cs) = cs"
| "childrenOf n = []"

fun getAt :: "node list \<Rightarrow> nat list \<Rightarrow> node option" where
  "getAt ns [] = None"
| "getAt ns [i] = (if i < length ns then Some (ns ! i) else None)"
| "getAt ns (i # j # p) = (if i < length ns then getAt (childrenOf (ns ! i)) (j # p) else None)"

fun withChildren :: "node \<Rightarrow> node list \<Rightarrow> node" where
  "withChildren (Element tg as cs) cs' = Element tg as cs'"
| "withChildren n cs' = n"

fun mapAt :: "(node \<Rightarrow> node) \<Rightarrow> node list \<Rightarrow> nat list \<Rightarrow> node list" where
  "mapAt f ns [] = ns"
| "mapAt f ns [i] = (if i < length ns then ns[i := f (ns ! i)] else ns)"
| "mapAt f ns (i # j # p) =
     (if i < length ns
      then ns[i := withChildren (ns ! i) (mapAt f (childrenOf (ns ! i)) (j # p))]
      else ns)"

definition hasTagIn :: "string list \<Rightarrow> node list \<Rightarrow> nat list \<Rightarrow> bool" where
  "hasTagIn tags body p =
     (case getAt body p of Some (Element tg as cs) \<Rightarrow> tg \<in> set tags | _ \<Rightarrow> False)"

definition querySelectorAll :: "string list \<Rightarrow> node list \<Rightarrow> nat list list" where
  "querySelectorAll tags body = filter (hasTagIn tags body) (forestPaths body)"

text \<open>
  The attributes of an element keep the order in which they were first set;
  \<open>setAttribute\<close> changes the value of an attribute the element has and appends a new one.
\<close>

fun setAttribute :: "(string \<times> string) list \<Rightarrow> string \<Rightarrow> string \<Rightarrow> (string \<times> string) list" where
  "setAttribute [] n v = [(n, v)]"
| "setAttribute ((n', v') # as) n v =
     (if n' = n then (n, v) # as else (n', v') # setAttribute as n v)"

definition setAttributes :: "(string \<times> string) list \<Rightarrow> (string \<times> string) list \<Rightarrow> (string \<times> string) list" where
  "setAttributes as new = foldl (\<lambda>acc (n, v). setAttribute acc n v) as new"

text \<open>
  The body shared by the block and the inline loop: when the recorded tag differs, a new
  element of that tag receives the attributes and the children of the old one and takes
  its place; then the recorded attributes are set.
\<close>

fun restoreElement :: "string \<Rightarrow> (string \<times> string) list \<Rightarrow> node \<Rightarrow> node" where
  "restoreElement tg recorded (Element quillTag as cs) =
     (if tg \<noteq> quillTag
      then (let copied = setAttributes [] as
            in Element tg (setAttributes copied recorded) cs)
      else Element quillTag (setAttributes as recorded) cs)"
| "restoreElement tg recorded n = n"

fun restoreBlocks :: "blockElement option list \<Rightarrow> node list \<Rightarrow> node list" where
  "restoreBlocks [] ns = ns"
| "restoreBlocks (original # rest) [] = []"
| "restoreBlocks (original # rest) (Element tg as cs # ns) =
     (case original of
        None \<Rightarrow> Element tg as cs
      | Some orig \<Rightarrow> restoreElement (blockTag orig) (blockAttrs orig) (Element tg as cs))
       # restoreBlocks rest ns"
| "restoreBlocks (original # rest) (n # ns) = n # restoreBlocks (original # rest) ns"

definition textMatches :: "node list \<Rightarrow> string \<Rightarrow> nat list \<Rightarrow> bool" where
  "textMatches body txt p =
     (case getAt body p of Some n \<Rightarrow> trim (textContent n) = txt | None \<Rightarrow> False)"

definition applyInline :: "node list \<Rightarrow> inlineElement \<Rightarrow> node list" where
  "applyInline body originalInline =
     (let candidates = querySelectorAll inlineTags body
      in case find (textMatches body (inlineText originalInline)) candidates of
           None \<Rightarrow> body
         | Some p \<Rightarrow> mapAt (restoreElement (originalTag originalInline) (attrs originalInline)) body p)"

definition reapplyHTMLAttributes :: "browser \<Rightarrow> string \<Rightarrow> htmlStructure option \<Rightarrow> string" where
  "reapplyHTMLAttributes b html originalStructure =
     (case originalStructure of
        None \<Rightarrow> html
      | Some str \<Rightarrow>
          if html = [] then html
          else
            (let hasBlockChanges = list_ex (\<lambda>el. el \<noteq> None) (blockElements str);
                 hasInlineChanges = (inlineElements str \<noteq> [])
             in if \<not> hasBlockChanges \<and> \<not> hasInlineChanges then html
                else
                  (let doc = domParse b html;
                       doc1 = (if hasBlockChanges then restoreBlocks (blockElements str) doc else doc);
                       doc2 = (if hasInlineChanges then foldl applyInline doc1 (inlineElements str)
                               else doc1)
                   in innerHTMLSerialize b doc2)))"

section \<open>Saving an edit\<close>

datatype insertValue = InsertText string | InsertEmbed

record deltaOp =
  opAttributes :: "string list option"
  opInsert :: insertValue

definition isFormattingAttr :: "string \<Rightarrow> bool" where
  "isFormattingAttr a \<longleftrightarrow> a \<notin> set [''id'', ''class''] \<and> \<not> startsWith a ''data-''"

definition opHasFormatting :: "deltaOp \<Rightarrow> bool" where
  "opHasFormatting op =
     (if (case opAttributes op of
            Some names \<Rightarrow> names \<noteq> [] \<and> filter isFormattingAttr names \<noteq> []
          | None \<Rightarrow> False) then True
      else (case opInsert op of InsertText s \<Rightarrow> False | InsertEmbed \<Rightarrow> True))"

definition deltaHasFormatting :: "deltaOp list option \<Rightarrow> bool" where
  "deltaHasFormatting delta =
     (case delta of None \<Rightarrow> False | Some ops \<Rightarrow> list_ex opHasFormatting ops)"

text \<open>
  \<open>htmlContainsTags\<close> tests the pattern \<open><[a-z][a-z0-9]*(\s[^>]*)?\/?>\<close>, letters in
  either case, anywhere in the string.
\<close>

definition isLetter :: "char \<Rightarrow> bool" where
  "isLetter c \<longleftrightarrow> (CHR ''a'' \<le> c \<and> c \<le> CHR ''z'') \<or> (CHR ''A'' \<le> c \<and> c \<le> CHR ''Z'')"

definition tagTail :: "string \<Rightarrow> bool" where
  "tagTail r =
     (case r of
        [] \<Rightarrow> False
      | c # r' \<Rightarrow>
          c = CHR ''>'' \<or> (c = CHR ''/'' \<and> take 1 r' = ''>'') \<or> (isWhiteSpace c \<and> CHR ''>'' \<in> set r'))"

definition tagAt :: "string \<Rightarrow> bool" where
  "tagAt s =
     (case s of
        c0 # c1 # r \<Rightarrow>
          c0 = CHR ''<'' \<and> isLetter c1 \<and> tagTail (dropWhile (\<lambda>c. isLetter c \<or> isDigit c) r)
      | _ \<Rightarrow> False)"

fun htmlContainsTags :: "string \<Rightarrow> bool" where
  "htmlContainsTags [] = False"
| "htmlContainsTags (c # s) = (tagAt (c # s) \<or> htmlContainsTags s)"

definition stripFinalNewline :: "string \<Rightarrow> string" where
  "stripFinalNewline s = (if s \<noteq> [] \<and> last s = CHR 0x0A then butlast s else s)"

text \<open>What the editor and the code-view text area hold at the moment of saving.\<close>

record editorSnapshot =
  getContents :: "deltaOp list option"
  getText :: string
  getSemanticHTML :: string
  codeViewTextarea :: string

definition codeViewSave :: "browser \<Rightarrow> editContext \<Rightarrow> editorSnapshot \<Rightarrow> string \<times> editContext" where
  "codeViewSave b ctx ed =
     (let codeViewHTML = codeViewTextarea ed;
          codeViewBaseline = (case codeViewInitialHTML ctx of
                                Some h \<Rightarrow> if h = [] then originalValue ctx else h
                              | None \<Rightarrow> originalValue ctx)
      in if codeViewHTML = codeViewBaseline then (originalValue ctx, ctx)
         else if \<not> htmlContainsTags codeViewHTML then (codeViewHTML, ctx)
         else (codeViewHTML, ctx\<lparr>originalAttributes := extractHTMLAttributes b codeViewHTML\<rparr>))"

definition designViewSave :: "browser \<Rightarrow> editContext \<Rightarrow> editorSnapshot \<Rightarrow> string" where
  "designViewSave b ctx ed =
     (let currentDelta = getContents ed;
          currentText = getText ed;
          hasFormatting = deltaHasFormatting currentDelta
      in if hasFormatting then
           (let newValue = getSemanticHTML ed
            in if hasPreservableStructure (Some (originalAttributes ctx))
               then reapplyHTMLAttributes b newValue (Some (originalAttributes ctx))
               else newValue)
         else if currentText = originalText ctx then originalValue ctx
         else stripFinalNewline currentText)"

text \<open>
  The key of an open edit is the key of a cell that could be opened. A cell whose value is
  an inherited member cannot: \<open>openEditModal\<close> throws on a value that is not a string
  before the modal is shown. The assignment on saving is therefore \<open>objectSet\<close>.
\<close>

definition setTranslation :: "languageEntry list \<Rightarrow> nat \<Rightarrow> string \<Rightarrow> string \<Rightarrow> languageEntry list" where
  "setTranslation ds i k v =
     ds[i := (ds ! i)\<lparr>Translations := objectSet (Translations (ds ! i)) k v\<rparr>]"

definition handleModalSave :: "browser \<Rightarrow> editorSnapshot \<Rightarrow> app \<Rightarrow> error + app" where
  "handleModalSave b ed st =
     (case currentEditContext st of
        None \<Rightarrow> Inr st
      | Some ctx \<Rightarrow>
          (let (newValue, ctx') = (if isCodeViewActive st then codeViewSave b ctx ed
                                   else (designViewSave b ctx ed, ctx))
           in if langIndex ctx < length (modifiedDataSource st)
              then Inr (closeEditModal
                          (st\<lparr>currentEditContext := Some ctx',
                              modifiedDataSource :=
                                setTranslation (modifiedDataSource st) (langIndex ctx) (editKey ctx) newValue,
                              hasUnsavedChanges := True\<rparr>))
              else Inl TypeError))"

section \<open>A stand-in browser for worked examples\<close>

text \<open>
  A pattern made of plain and escaped characters matches where those characters occur,
  letters in either case, and any other pattern is refused; \<open>innerHTML\<close> parses a
  string to one text node holding what stands outside its tags, the document parser to one
  paragraph holding the string; ASCII letters have a lower case; an inherited function
  converts to the text the common engines give.
\<close>

fun occursIn :: "string \<Rightarrow> string \<Rightarrow> bool" where
  "occursIn pat [] = (pat = [])"
| "occursIn pat (c # s) = (take (length pat) (c # s) = pat \<or> occursIn pat s)"

definition asciiLower :: "char \<Rightarrow> char" where
  "asciiLower c = (if CHR ''A'' \<le> c \<and> c \<le> CHR ''Z'' then char_of (of_char c + (32::nat)) else c)"

fun unescapePattern :: "string \<Rightarrow> string option" where
  "unescapePattern [] = Some []"
| "unescapePattern [c] = (if regexSpecial c then None else Some [c])"
| "unescapePattern (c # d # r) =
     (if c = CHR 0x5C then map_option ((#) d) (unescapePattern r)
      else if regexSpecial c then None
      else map_option ((#) c) (unescapePattern (d # r)))"

fun stripTags :: "bool \<Rightarrow> string \<Rightarrow> string" where
  "stripTags inTag [] = []"
| "stripTags inTag (c # s) =
     (if inTag then (if c = CHR ''>'' then stripTags False s else stripTags True s)
      else if c = CHR ''<'' then stripTags True s
      else c # stripTags False s)"

definition nativeText :: "string \<Rightarrow> string" where
  "nativeText n =
     (if n = ''__proto__'' then ''[object Object]''
      else if n = ''constructor'' then ''function Object() { [native code] }''
      else ''function '' @ n @ ''() { [native code] }'')"

definition plainBrowser :: browser where
  "plainBrowser =
     \<lparr>newRegExp_gi = (\<lambda>pat. map_option (\<lambda>lit s. occursIn (map asciiLower lit) (map asciiLower s))
                                        (unescapePattern pat)),
      innerHTMLParse = (\<lambda>s. [TextNode (stripTags False s)]),
      domParse = (\<lambda>s. [Element ''p'' [] [TextNode s]]),
      innerHTMLSerialize = (\<lambda>ns. concat (map textContent ns)),
      toLowerCase = map asciiLower,
      inheritedToString = nativeText\<rparr>"

definition exampleData :: "languageEntry list" where
  "exampleData =
     [\<lparr>LanguageTwoLetter = ''en'', Translations = [(''k1'', ''banana''), (''k2'', ''apple'')]\<rparr>,
      \<lparr>LanguageTwoLetter = ''hr'', Translations = [(''k1'', ''bok'')]\<rparr>]"

definition exampleState :: app where
  "exampleState =
     \<lparr>originalDataSource = exampleData, modifiedDataSource = exampleData,
      hasUnsavedChanges = False, searchQuery = [], sortState = None, collapsedColumns = {},
      isSearchActive = False, pageState = \<lparr>currentPage = 1, rowsPerPage = 25\<rparr>,
      currentEditContext = None, isCodeViewActive = False\<rparr>"

definition exampleContext :: editContext where
  "exampleContext =
     \<lparr>editKey = ''k2'', langIndex = 0, originalValue = ''apple'',
      originalAttributes = \<lparr>blockElements = [], inlineElements = []\<rparr>,
      originalText = ''apple'' @ [CHR 0x0A], codeViewInitialHTML = None\<rparr>"

definition editingState :: app where
  "editingState = exampleState\<lparr>currentEditContext := Some exampleContext\<rparr>"

text \<open>The same cell open again after an earlier save changed it to \<open>apples\<close>.\<close>

definition savedEditingState :: app where
  "savedEditingState =
     editingState\<lparr>modifiedDataSource := setTranslation exampleData 0 ''k2'' ''apples'',
                   hasUnsavedChanges := True,
                   currentEditContext := Some (exampleContext\<lparr>originalValue := ''apples''\<rparr>)\<rparr>"

text \<open>Two editor snapshots in design view: nothing typed, and the text retyped as \<open>pear\<close>.\<close>

definition unchangedEditor :: editorSnapshot where
  "unchangedEditor =
     \<lparr>getContents = Some [\<lparr>opAttributes = None, opInsert = InsertText (''apple'' @ [CHR 0x0A])\<rparr>],
      getText = ''apple'' @ [CHR 0x0A],
      getSemanticHTML = ''<p>apple</p>'',
      codeViewTextarea = []\<rparr>"

definition retypedEditor :: editorSnapshot where
  "retypedEditor =
     \<lparr>getContents = Some [\<lparr>opAttributes = Some [''data-note''], opInsert = InsertText (''pear'' @ [CHR 0x0A])\<rparr>],
      getText = ''pear'' @ [CHR 0x0A],
      getSemanticHTML = ''<p>pear</p>'',
      codeViewTextarea = []\<rparr>"

text \<open>A search for \<open>Banana\<close>, and the row it shows.\<close>

definition searchingState :: app where
  "searchingState = exampleState\<lparr>searchQuery := ''Banana'', isSearchActive := True\<rparr>"

definition bananaRow :: row where
  "bananaRow =
     \<lparr>rowKey = ''k1'',
      cells = [\<lparr>columnIndex = 0, cellValue = ''banana'', collapsed = False\<rparr>,
               \<lparr>columnIndex = 1, cellValue = ''bok'', collapsed = False\<rparr>]\<rparr>"

text \<open>A node without its children: its kind, tag and attributes.\<close>

fun shallow :: "node \<Rightarrow> node" where
  "shallow n = withChildren n []"


text \<open>
  Markup that uses only the default tags and carries no \<open>id\<close>, \<open>class\<close> or
  \<open>data-*\<close> attribute, as the description of extraction puts it.
\<close>

fun plainNode :: "node \<Rightarrow> bool" where
  "plainNode (Element tg as cs) =
     (getPreservableAttrs as = [] \<and> (tg \<in> set blockTags \<longrightarrow> tg = ''p'')
      \<and> (tg \<in> set inlineTags \<longrightarrow> tg = ''span'') \<and> list_all plainNode cs)"
| "plainNode n = True"




text \<open>
  A matrix in which the first language has a key named like a member of
  \<open>Object.prototype\<close> and the second language lacks it, shown unsorted and sorted on the
  second column.
\<close>

definition inheritedKeyData :: "languageEntry list" where
  "inheritedKeyData =
     [\<lparr>LanguageTwoLetter = ''en'', Translations = [(''toString'', ''x''), (''zebra'', ''y'')]\<rparr>,
      \<lparr>LanguageTwoLetter = ''hr'', Translations = [(''zebra'', ''<b>Apple</b>'')]\<rparr>]"

definition inheritedKeyState :: app where
  "inheritedKeyState =
     exampleState\<lparr>originalDataSource := inheritedKeyData, modifiedDataSource := inheritedKeyData\<rparr>"

definition inheritedKeySortState :: app where
  "inheritedKeySortState = inheritedKeyState\<lparr>sortState := Some (1, Asc)\<rparr>"

text \<open>
  A matrix, as \<open>JSON.parse\<close> can produce it, that owns a key \<open>__proto__\<close>, and a search
  for \<open>1.5\<close> on it.
\<close>

definition protoKeyData :: "languageEntry list" where
  "protoKeyData =
     [\<lparr>LanguageTwoLetter = ''en'',
       Translations = [(''__proto__'', ''1.5 kg''), (''k1'', ''1.5 kg net''), (''k2'', ''125 kg'')]\<rparr>]"

definition protoKeySearchState :: app where
  "protoKeySearchState =
     exampleState\<lparr>originalDataSource := protoKeyData, modifiedDataSource := protoKeyData,
                   searchQuery := ''1.5'', isSearchActive := True\<rparr>"





section \<open>Properties\<close>

lemmas example_defs = editingState_def exampleState_def exampleData_def exampleContext_def
  savedEditingState_def setTranslation_def objectSet_def objectKeys_def

subsection \<open>Own properties\<close>

lemma map_of_insertProperty:
  "k \<notin> fst ` set t \<Longrightarrow> map_of (insertProperty t k v) x = (if x = k then Some v else map_of t x)"
  by (induction t) auto

lemma map_of_overwrite:
  "map_of (map (\<lambda>(k', v'). if k' = k then (k', v) else (k', v')) t) x
     = (if x = k \<and> k \<in> fst ` set t then Some v else map_of t x)"
proof (induction t)
  case Nil
  then show ?case by simp
next
  case (Cons p t)
  obtain k' v' where p: "p = (k', v')" by (cases p)
  show ?case
  proof (cases "k' = k")
    case True
    then show ?thesis using Cons.IH by (cases "x = k") (simp_all add: p)
  next
    case False
    then show ?thesis using Cons.IH by (cases "x = k") (simp_all add: p)
  qed
qed

lemma map_of_objectSet: "map_of (objectSet t k v) = (map_of t)(k \<mapsto> v)"
  by (auto simp: objectSet_def objectKeys_def map_of_insertProperty map_of_overwrite fun_eq_iff)

lemma objectGet_objectSet_same: "objectGet (objectSet t k v) k = Some v"
  by (simp add: objectGet_def map_of_objectSet)

lemma objectGet_objectSet_other: "k' \<noteq> k \<Longrightarrow> objectGet (objectSet t k v) k' = objectGet t k'"
  by (simp add: objectGet_def map_of_objectSet)

lemma objectKeys_objectSet: "set (objectKeys (objectSet t k v)) = insert k (set (objectKeys t))"
proof -
  have "set (objectKeys u) = dom (map_of u)" for u :: translationMap
    by (simp add: objectKeys_def dom_map_of_conv_image_fst)
  then show ?thesis by (simp add: map_of_objectSet)
qed

lemma objectGet_empty: "objectGet [] k = None"
  by (simp add: objectGet_def)

lemma objectGet_None_iff: "objectGet t k = None \<longleftrightarrow> k \<notin> set (objectKeys t)"
  by (simp add: objectGet_def objectKeys_def map_of_eq_None_iff)

text \<open>What a cell shows, in terms of the own properties and the inherited names.\<close>

lemma display_valueOrEmpty:
  "toDisplayString b (valueOrEmpty t k) =
     (case objectGet t k of
        Some v \<Rightarrow> v
      | None \<Rightarrow> if k \<in> set objectPrototypeNames then inheritedToString b k else [])"
  by (simp add: toDisplayString_def valueOrEmpty_def propertyRead_def split: option.splits)

subsection \<open>Pagination requests\<close>

text \<open>
  C9. A request for a page below 1 or above the page count of the current projection
  returns the state it was given: page number, open edit, working matrix and view
  settings are all untouched, and the page number is not clamped.
\<close>

theorem goToPage_out_of_range_noop:
  "page < 1 \<or> exceeds page (ceilDiv (length (getAllKeys (dataToRender b st)))
                                     (rowsPerPage (pageState st)))
   \<Longrightarrow> goToPage b page st = st"
  by (simp add: goToPage_def Let_def)

theorem goToPage_out_of_range_noop_witness:
  "exceeds 5 (ceilDiv (length (getAllKeys (dataToRender plainBrowser editingState)))
                      (rowsPerPage (pageState editingState)))
   \<and> goToPage plainBrowser 5 editingState = editingState
   \<and> currentEditContext (goToPage plainBrowser 5 editingState) = Some exampleContext
   \<and> currentPage (pageState (goToPage plainBrowser 5 editingState)) = 1"
proof -
  have h: "exceeds 5 (ceilDiv (length (getAllKeys (dataToRender plainBrowser editingState)))
                      (rowsPerPage (pageState editingState)))"
    by (simp add: example_defs dataToRender_def getAllKeys_def setAdd_def objectKeys_def ceilDiv_def)
  have "goToPage plainBrowser 5 editingState = editingState"
    using goToPage_out_of_range_noop [of 5 plainBrowser editingState] h by simp
  then show ?thesis using h by (simp add: example_defs)
qed

subsection \<open>Transitions that compete with an open edit\<close>

lemma closeIfEditing_simps:
  "currentEditContext (closeIfEditing st) = None"
  "modifiedDataSource (closeIfEditing st) = modifiedDataSource st"
  "originalDataSource (closeIfEditing st) = originalDataSource st"
  "hasUnsavedChanges (closeIfEditing st) = hasUnsavedChanges st"
  by (auto simp: closeIfEditing_def closeEditModal_def)

text \<open>
  C7, as the code has it. With an edit open, a search, a page change that proceeds and a
  page-size change clear the edit context and leave the working matrix and the
  unsaved-changes flag as they were: nothing is saved. Discard-all clears the edit context
  too, and replaces the working matrix by the original one.
\<close>

theorem competing_transitions_cancel_edit:
  assumes "currentEditContext st = Some ctx"
  shows "currentEditContext (performSearch query st) = None
       \<and> modifiedDataSource (performSearch query st) = modifiedDataSource st
       \<and> hasUnsavedChanges (performSearch query st) = hasUnsavedChanges st
       \<and> (\<not> (page < 1 \<or> exceeds page (ceilDiv (length (getAllKeys (dataToRender b st)))
                                               (rowsPerPage (pageState st))))
            \<longrightarrow> currentEditContext (goToPage b page st) = None
              \<and> modifiedDataSource (goToPage b page st) = modifiedDataSource st
              \<and> hasUnsavedChanges (goToPage b page st) = hasUnsavedChanges st)
       \<and> currentEditContext (handleRowsPerPageChange n st) = None
       \<and> modifiedDataSource (handleRowsPerPageChange n st) = modifiedDataSource st
       \<and> hasUnsavedChanges (handleRowsPerPageChange n st) = hasUnsavedChanges st
       \<and> currentEditContext (handleDiscardChanges st) = None
       \<and> modifiedDataSource (handleDiscardChanges st) = originalDataSource st
       \<and> hasUnsavedChanges (handleDiscardChanges st) = False"
  by (simp add: performSearch_def goToPage_def handleRowsPerPageChange_def
        handleDiscardChanges_def Let_def closeIfEditing_simps)

theorem competing_transitions_cancel_edit_witness:
  "currentEditContext savedEditingState = Some (exampleContext\<lparr>originalValue := ''apples''\<rparr>)
   \<and> \<not> (1 < (1::int) \<or> exceeds 1 (ceilDiv (length (getAllKeys (dataToRender plainBrowser savedEditingState)))
                                           (rowsPerPage (pageState savedEditingState))))
   \<and> currentEditContext (performSearch ''ban'' savedEditingState) = None
   \<and> modifiedDataSource (performSearch ''ban'' savedEditingState) = modifiedDataSource savedEditingState
   \<and> currentEditContext (goToPage plainBrowser 1 savedEditingState) = None
   \<and> modifiedDataSource (goToPage plainBrowser 1 savedEditingState) = modifiedDataSource savedEditingState
   \<and> currentEditContext (handleRowsPerPageChange 50 savedEditingState) = None
   \<and> modifiedDataSource (handleRowsPerPageChange 50 savedEditingState) = modifiedDataSource savedEditingState
   \<and> currentEditContext (handleDiscardChanges savedEditingState) = None
   \<and> modifiedDataSource (handleDiscardChanges savedEditingState) = exampleData"
proof -
  have c: "currentEditContext savedEditingState = Some (exampleContext\<lparr>originalValue := ''apples''\<rparr>)"
    by (simp add: example_defs)
  have r: "\<not> (1 < (1::int) \<or> exceeds 1 (ceilDiv (length (getAllKeys (dataToRender plainBrowser savedEditingState)))
                                           (rowsPerPage (pageState savedEditingState))))"
    by (simp add: example_defs dataToRender_def getAllKeys_def setAdd_def objectKeys_def ceilDiv_def)
  have o: "originalDataSource savedEditingState = exampleData"
    by (simp add: savedEditingState_def editingState_def exampleState_def)
  show ?thesis
    using competing_transitions_cancel_edit [OF c, of "''ban''" 1 plainBrowser 50] c r o
    by simp
qed

text \<open>
  Discard-all on a cell an earlier save had changed: the cell held \<open>apples\<close> when the
  edit opened, and holds the original \<open>apple\<close> afterwards.
\<close>

theorem discard_changes_edited_cell_counterexample:
  "currentEditContext savedEditingState = Some (exampleContext\<lparr>originalValue := ''apples''\<rparr>)
   \<and> valueOrEmpty (Translations (modifiedDataSource savedEditingState ! 0)) ''k2'' = Str ''apples''
   \<and> valueOrEmpty (Translations (modifiedDataSource (handleDiscardChanges savedEditingState) ! 0)) ''k2''
       = Str ''apple''
   \<and> valueOrEmpty (Translations (modifiedDataSource (handleDiscardChanges savedEditingState) ! 0)) ''k2''
       \<noteq> valueOrEmpty (Translations (modifiedDataSource savedEditingState ! 0)) ''k2''"
  by (simp add: example_defs handleDiscardChanges_def closeIfEditing_def closeEditModal_def
        valueOrEmpty_def propertyRead_def objectGet_def)

lemma setTranslation_length: "length (setTranslation ds i k v) = length ds"
  by (simp add: setTranslation_def)

lemma setTranslation_get:
  "i < length ds \<Longrightarrow> objectGet (Translations (setTranslation ds i k v ! i)) k = Some v"
  by (simp add: setTranslation_def objectGet_objectSet_same)

lemma opHasFormatting_iff:
  "opHasFormatting op \<longleftrightarrow>
     (\<exists>names. opAttributes op = Some names \<and> (\<exists>a \<in> set names. isFormattingAttr a))
     \<or> opInsert op = InsertEmbed"
proof (cases "opInsert op")
  case (InsertText s)
  then show ?thesis
    by (cases "opAttributes op") (auto simp: opHasFormatting_def filter_empty_conv)
next
  case InsertEmbed
  then show ?thesis by (simp add: opHasFormatting_def)
qed

lemma deltaHasFormatting_iff:
  "deltaHasFormatting (Some ops) \<longleftrightarrow>
     (\<exists>op \<in> set ops. (\<exists>names. opAttributes op = Some names \<and> (\<exists>a \<in> set names. isFormattingAttr a))
                      \<or> opInsert op = InsertEmbed)"
  by (simp add: deltaHasFormatting_def list_ex_iff opHasFormatting_iff)

subsection \<open>Saving\<close>

text \<open>
  C10. Every save that completes (an edit is open and its column exists) sets the
  unsaved-changes flag, and a save can complete with the working matrix still equal to the
  original one: the flag does not tell that the two differ.
\<close>

theorem save_sets_unsaved_flag:
  "(currentEditContext st = Some ctx \<and> langIndex ctx < length (modifiedDataSource st)
      \<longrightarrow> (\<exists>st'. handleModalSave b ed st = Inr st' \<and> hasUnsavedChanges st'))
   \<and> (\<exists>st0 st1. currentEditContext st0 \<noteq> None \<and> \<not> hasUnsavedChanges st0
         \<and> modifiedDataSource st0 = originalDataSource st0
         \<and> handleModalSave plainBrowser unchangedEditor st0 = Inr st1
         \<and> hasUnsavedChanges st1 \<and> modifiedDataSource st1 = originalDataSource st1)"
proof (intro conjI impI)
  assume "currentEditContext st = Some ctx \<and> langIndex ctx < length (modifiedDataSource st)"
  then show "\<exists>st'. handleModalSave b ed st = Inr st' \<and> hasUnsavedChanges st'"
    by (simp add: handleModalSave_def closeEditModal_def split: prod.splits)
next
  have "handleModalSave plainBrowser unchangedEditor editingState
          = Inr (exampleState\<lparr>hasUnsavedChanges := True\<rparr>)"
    by (simp add: handleModalSave_def designViewSave_def unchangedEditor_def example_defs
          closeEditModal_def deltaHasFormatting_def opHasFormatting_def)
  then show "\<exists>st0 st1. currentEditContext st0 \<noteq> None \<and> \<not> hasUnsavedChanges st0
         \<and> modifiedDataSource st0 = originalDataSource st0
         \<and> handleModalSave plainBrowser unchangedEditor st0 = Inr st1
         \<and> hasUnsavedChanges st1 \<and> modifiedDataSource st1 = originalDataSource st1"
    by (intro exI [of _ editingState] exI [of _ "exampleState\<lparr>hasUnsavedChanges := True\<rparr>"])
       (simp add: editingState_def exampleState_def)
qed

theorem save_sets_unsaved_flag_witness:
  "currentEditContext editingState = Some exampleContext
   \<and> langIndex exampleContext < length (modifiedDataSource editingState)
   \<and> (\<exists>st'. handleModalSave plainBrowser retypedEditor editingState = Inr st' \<and> hasUnsavedChanges st')"
proof -
  have h: "currentEditContext editingState = Some exampleContext
           \<and> langIndex exampleContext < length (modifiedDataSource editingState)"
    by (simp add: example_defs)
  show ?thesis
    using save_sets_unsaved_flag [of editingState exampleContext plainBrowser retypedEditor] h
    by blast
qed

text \<open>
  C4, as the code has it. In design view, with a delta whose operations carry no
  formatting attribute and no embed, the saved value is the original value when the
  editor's text equals the text captured at opening, and otherwise the editor's text
  without its final newline.
\<close>

theorem design_save_without_formatting:
  assumes "currentEditContext st = Some ctx"
      and "\<not> isCodeViewActive st"
      and "langIndex ctx < length (modifiedDataSource st)"
      and "getContents ed = Some ops"
      and "\<forall>op \<in> set ops. (\<forall>names. opAttributes op = Some names \<longrightarrow> (\<forall>a \<in> set names. \<not> isFormattingAttr a))
                           \<and> opInsert op \<noteq> InsertEmbed"
  shows "\<exists>st'. handleModalSave b ed st = Inr st'
           \<and> objectGet (Translations (modifiedDataSource st' ! langIndex ctx)) (editKey ctx)
               = Some (if getText ed = originalText ctx then originalValue ctx
                       else stripFinalNewline (getText ed))"
proof -
  have "\<not> deltaHasFormatting (getContents ed)"
    using assms(4,5) by (auto simp: deltaHasFormatting_iff)
  then have "designViewSave b ctx ed =
               (if getText ed = originalText ctx then originalValue ctx
                else stripFinalNewline (getText ed))"
    by (simp add: designViewSave_def Let_def)
  then show ?thesis
    using assms(1-3)
    by (simp add: handleModalSave_def closeEditModal_def setTranslation_get)
qed

theorem design_save_without_formatting_witness:
  "currentEditContext editingState = Some exampleContext
   \<and> \<not> isCodeViewActive editingState
   \<and> langIndex exampleContext < length (modifiedDataSource editingState)
   \<and> (\<exists>st'. handleModalSave plainBrowser retypedEditor editingState = Inr st'
          \<and> objectGet (Translations (modifiedDataSource st' ! 0)) ''k2'' = Some ''pear'')"
proof -
  have c: "currentEditContext editingState = Some exampleContext" by (simp add: example_defs)
  have v: "\<not> isCodeViewActive editingState" by (simp add: example_defs)
  have l: "langIndex exampleContext < length (modifiedDataSource editingState)"
    by (simp add: example_defs)
  have g: "getContents retypedEditor
             = Some [\<lparr>opAttributes = Some [''data-note''], opInsert = InsertText (''pear'' @ [CHR 0x0A])\<rparr>]"
    by (simp add: retypedEditor_def)
  have f: "\<forall>op \<in> set [\<lparr>opAttributes = Some [''data-note''], opInsert = InsertText (''pear'' @ [CHR 0x0A])\<rparr>].
             (\<forall>names. opAttributes op = Some names \<longrightarrow> (\<forall>a \<in> set names. \<not> isFormattingAttr a))
             \<and> opInsert op \<noteq> InsertEmbed"
    by (simp add: isFormattingAttr_def startsWith_def)
  show ?thesis
    using design_save_without_formatting [OF c v l g f, of plainBrowser] c v l
    by (simp add: retypedEditor_def exampleContext_def stripFinalNewline_def)
qed

text \<open>
  The editor reports \<open>pear\<close> followed by a newline; the value saved is \<open>pear\<close>, not
  that text as it stands.
\<close>

theorem design_save_plain_text_counterexample:
  "currentEditContext editingState = Some exampleContext
   \<and> \<not> isCodeViewActive editingState
   \<and> \<not> deltaHasFormatting (getContents retypedEditor)
   \<and> getText retypedEditor \<noteq> originalText exampleContext
   \<and> handleModalSave plainBrowser retypedEditor editingState
       = Inr (exampleState\<lparr>modifiedDataSource := setTranslation exampleData 0 ''k2'' ''pear'',
                            hasUnsavedChanges := True\<rparr>)
   \<and> ''pear'' \<noteq> getText retypedEditor"
  by (simp add: handleModalSave_def designViewSave_def retypedEditor_def example_defs
        closeEditModal_def deltaHasFormatting_def opHasFormatting_def isFormattingAttr_def
        startsWith_def stripFinalNewline_def)

subsection \<open>Reapplying a structure with nothing to restore\<close>

text \<open>
  C5. When the structure extracted from a markup string has only placeholders as block
  entries and no inline entry, reapplying it to any second markup string returns that
  string unchanged.
\<close>

theorem reapply_trivial_structure_noop:
  assumes "\<forall>el \<in> set (blockElements (extractHTMLAttributes b markup)). el = None"
      and "inlineElements (extractHTMLAttributes b markup) = []"
  shows "reapplyHTMLAttributes b markup' (Some (extractHTMLAttributes b markup)) = markup'"
  using assms by (simp add: reapplyHTMLAttributes_def Let_def list_ex_iff)

theorem reapply_trivial_structure_noop_witness:
  "blockElements (extractHTMLAttributes plainBrowser ''hi'') = [None]
   \<and> inlineElements (extractHTMLAttributes plainBrowser ''hi'') = []
   \<and> reapplyHTMLAttributes plainBrowser ''<p>hi there</p>'' (Some (extractHTMLAttributes plainBrowser ''hi''))
       = ''<p>hi there</p>''"
proof -
  have t: "trim ''hi'' = ''hi''"
    by (simp add: trim_def isWhiteSpace_def)
  have p: "getPreservableAttrs [] = []"
    by (simp add: getPreservableAttrs_def)
  have e: "extractHTMLAttributes plainBrowser ''hi'' = \<lparr>blockElements = [None], inlineElements = []\<rparr>"
    by (simp add: extractHTMLAttributes_def t p plainBrowser_def
          blockTags_def inlineTags_def bodyElements_def)
  have a: "\<forall>el \<in> set (blockElements (extractHTMLAttributes plainBrowser ''hi'')). el = None"
    by (simp add: e)
  have i: "inlineElements (extractHTMLAttributes plainBrowser ''hi'') = []"
    by (simp add: e)
  show ?thesis
    using reapply_trivial_structure_noop [OF a i, of "''<p>hi there</p>''"] a i e by simp
qed

subsection \<open>The worked search example\<close>

lemma searchingState_fields:
  "modifiedDataSource searchingState = exampleData" "searchQuery searchingState = ''Banana''"
  "isSearchActive searchingState" "sortState searchingState = None"
  "collapsedColumns searchingState = {}"
  "pageState searchingState = \<lparr>currentPage = 1, rowsPerPage = 25\<rparr>"
  by (simp_all add: searchingState_def exampleState_def)

lemma searchingState_results:
  "getSearchResults plainBrowser searchingState =
     [\<lparr>LanguageTwoLetter = ''en'', Translations = [(''k1'', ''banana'')]\<rparr>,
      \<lparr>LanguageTwoLetter = ''hr'', Translations = []\<rparr>]"
  by code_simp

lemma bananaRow_rendered: "map (renderRow plainBrowser searchingState) [''k1''] = [bananaRow]"
  by code_simp

lemma searchingState_view:
  "renderTable plainBrowser searchingState =
     Inr \<lparr>rows = [bananaRow], totalRows = 1, totalPages = Finite 1\<rparr>"
  using bananaRow_rendered
  by (simp add: renderTable_def renderTableBody_def dataToRender_def searchingState_results
        getAllKeys_def setAdd_def objectKeys_def applySortingToKeys_def arraySlice_def
        ceilDiv_def Let_def searchingState_fields)

subsection \<open>Row count\<close>

lemma set_foldl_setAdd: "set (foldl setAdd acc ks) = set acc \<union> set ks"
  by (induction ks arbitrary: acc) (auto simp: setAdd_def)

lemma distinct_foldl_setAdd: "distinct acc \<Longrightarrow> distinct (foldl setAdd acc ks)"
  by (induction ks arbitrary: acc) (auto simp: setAdd_def)

lemma set_foldl_langs:
  "set (foldl (\<lambda>keysSet lang. foldl setAdd keysSet (objectKeys (Translations lang))) acc data)
     = set acc \<union> (\<Union>lang \<in> set data. set (objectKeys (Translations lang)))"
  by (induction data arbitrary: acc) (auto simp: set_foldl_setAdd)

lemma distinct_foldl_langs:
  "distinct acc \<Longrightarrow>
   distinct (foldl (\<lambda>keysSet lang. foldl setAdd keysSet (objectKeys (Translations lang))) acc data)"
  by (induction data arbitrary: acc) (auto simp: distinct_foldl_setAdd)

lemma set_getAllKeys:
  "set (getAllKeys data) = (\<Union>lang \<in> set data. set (objectKeys (Translations lang)))"
  by (simp add: getAllKeys_def set_foldl_langs)

lemma distinct_getAllKeys: "distinct (getAllKeys data)"
  by (simp add: getAllKeys_def distinct_foldl_langs)

lemma length_getAllKeys:
  "length (getAllKeys data) = card (\<Union>lang \<in> set data. set (objectKeys (Translations lang)))"
  using distinct_card [OF distinct_getAllKeys, of data] by (simp add: set_getAllKeys)

lemma applySortingToKeys_pageState [simp]:
  "applySortingToKeys b (st\<lparr>pageState := pg\<rparr>) ks = applySortingToKeys b st ks"
  by (simp add: applySortingToKeys_def split: option.splits)

lemma dataToRender_pageState [simp]:
  "dataToRender b (st\<lparr>pageState := pg\<rparr>) = dataToRender b st"
  by (simp add: dataToRender_def getSearchResults_def split: option.splits)

lemma renderTable_totalRows:
  assumes "renderTable b st = Inr v"
  shows "totalRows v = length (getAllKeys (dataToRender b st))"
proof (cases "dataToRender b st = []")
  case True
  with assms show ?thesis
    by (auto simp: renderTable_def renderTableBody_def getAllKeys_def)
next
  case False
  with assms show ?thesis
    by (auto simp: renderTable_def renderTableBody_def Let_def split: sum.splits)
qed

lemma renderTable_succeeds_any_page:
  assumes "renderTable b st = Inr v"
  shows "\<exists>v'. renderTable b (st\<lparr>pageState := pg\<rparr>) = Inr v'"
  using assms
  by (auto simp: renderTable_def renderTableBody_def Let_def split: sum.splits if_splits)


text \<open>
  C8. The row count of a view is the number of distinct keys of the projection it was
  computed from, taken before the page is cut out, and every other page number and page
  size gives a view with the same count.
\<close>

theorem totalRows_counts_projection_keys:
  assumes "renderTable b st = Inr v"
  shows "totalRows v = card (\<Union>lang \<in> set (dataToRender b st). set (objectKeys (Translations lang)))
       \<and> (\<forall>pg. \<exists>v'. renderTable b (st\<lparr>pageState := pg\<rparr>) = Inr v' \<and> totalRows v' = totalRows v)"
proof (intro conjI allI)
  show "totalRows v = card (\<Union>lang \<in> set (dataToRender b st). set (objectKeys (Translations lang)))"
    using renderTable_totalRows [OF assms] by (simp add: length_getAllKeys)
next
  fix pg
  from renderTable_succeeds_any_page [OF assms, of pg]
  obtain v' where v': "renderTable b (st\<lparr>pageState := pg\<rparr>) = Inr v'" by blast
  have "totalRows v' = totalRows v"
    using renderTable_totalRows [OF v'] renderTable_totalRows [OF assms] by simp
  with v' show "\<exists>v'. renderTable b (st\<lparr>pageState := pg\<rparr>) = Inr v' \<and> totalRows v' = totalRows v"
    by blast
qed


theorem totalRows_counts_projection_keys_witness:
  "renderTable plainBrowser searchingState
     = Inr \<lparr>rows = [bananaRow], totalRows = 1, totalPages = Finite 1\<rparr>
   \<and> card (\<Union>lang \<in> set (dataToRender plainBrowser searchingState). set (objectKeys (Translations lang))) = 1
   \<and> (\<exists>v'. renderTable plainBrowser (searchingState\<lparr>pageState := \<lparr>currentPage = 3, rowsPerPage = 200\<rparr>\<rparr>) = Inr v'
          \<and> totalRows v' = 1)"
proof -
  note T = totalRows_counts_projection_keys [OF searchingState_view]
  have c: "card (\<Union>lang \<in> set (dataToRender plainBrowser searchingState). set (objectKeys (Translations lang))) = 1"
    using T [THEN conjunct1] by simp
  have p: "\<forall>pg. \<exists>v'. renderTable plainBrowser (searchingState\<lparr>pageState := pg\<rparr>) = Inr v' \<and> totalRows v' = 1"
    using T [THEN conjunct2] by simp
  show ?thesis
    using c p searchingState_view by blast
qed


subsection \<open>Column stability\<close>

lemma renderTable_rows:
  assumes "renderTable b st = Inr v"
  shows "\<exists>ks. rows v = map (renderRow b st) ks"
  using assms
  by (auto simp: renderTable_def renderTableBody_def Let_def split: sum.splits if_splits)

lemma renderRow_cells:
  "length (cells (renderRow b st k)) = length (modifiedDataSource st)"
  "i < length (modifiedDataSource st) \<Longrightarrow>
     cells (renderRow b st k) ! i =
       \<lparr>columnIndex = i,
        cellValue = (case objectGet (Translations (modifiedDataSource st ! i)) k of
                       Some v \<Rightarrow> v
                     | None \<Rightarrow> if k \<in> set objectPrototypeNames then inheritedToString b k else []),
        collapsed = (i \<in> collapsedColumns st)\<rparr>"
  by (simp_all add: renderRow_def display_valueOrEmpty)

text \<open>
  What the code does in every view it produces: each row has one cell per entry of the
  working matrix, in that order, and the cell at index i shows the value entry i of the
  working matrix owns for the row's key; when the entry owns no such key the cell is
  empty, unless the key names a member of \<open>Object.prototype\<close>, in which case the cell
  shows that member's text.
\<close>

lemma cells_come_from_working_matrix:
  assumes "renderTable b st = Inr v" and "r \<in> set (rows v)"
  shows "length (cells r) = length (modifiedDataSource st)
       \<and> (\<forall>i < length (modifiedDataSource st).
            columnIndex (cells r ! i) = i
          \<and> cellValue (cells r ! i) =
              (case objectGet (Translations (modifiedDataSource st ! i)) (rowKey r) of
                 Some v \<Rightarrow> v
               | None \<Rightarrow> if rowKey r \<in> set objectPrototypeNames
                          then inheritedToString b (rowKey r) else [])
          \<and> collapsed (cells r ! i) = (i \<in> collapsedColumns st))"
proof -
  from renderTable_rows [OF assms(1)] assms(2)
  obtain k where r: "r = renderRow b st k" by auto
  have k: "rowKey (renderRow b st k) = k" by (simp add: renderRow_def)
  show ?thesis unfolding r k by (simp add: renderRow_cells)
qed

text \<open>
  C1. The claim fails on the code for a key that names a member of \<open>Object.prototype\<close>
  and that a language lacks. With \<open>toString\<close> present in \<open>en\<close> only, the \<open>hr\<close> cell
  of that row is not empty: \<open>lang.Translations[key] || ''\<close> finds the inherited function,
  and the cell shows its text.
\<close>

theorem absent_key_cell_shows_inherited_member:
  "objectGet (Translations (modifiedDataSource inheritedKeyState ! 1)) ''toString'' = None
   \<and> renderTable plainBrowser inheritedKeyState =
       Inr \<lparr>rows =
              [\<lparr>rowKey = ''toString'',
                cells = [\<lparr>columnIndex = 0, cellValue = ''x'', collapsed = False\<rparr>,
                         \<lparr>columnIndex = 1, cellValue = ''function toString() { [native code] }'',
                          collapsed = False\<rparr>]\<rparr>,
               \<lparr>rowKey = ''zebra'',
                cells = [\<lparr>columnIndex = 0, cellValue = ''y'', collapsed = False\<rparr>,
                         \<lparr>columnIndex = 1, cellValue = ''<b>Apple</b>'', collapsed = False\<rparr>]\<rparr>],
            totalRows = 2, totalPages = Finite 1\<rparr>"
  by code_simp

subsection \<open>Search\<close>

lemma proto_not_owned_filterStep:
  "''__proto__'' \<notin> set (objectKeys acc) \<Longrightarrow> ''__proto__'' \<notin> set (objectKeys (filterStep regex t acc k0))"
  by (auto simp: filterStep_def assignProperty_def objectKeys_objectSet Let_def split: option.splits)

lemma objectGet_filterStep:
  "''__proto__'' \<notin> set (objectKeys acc) \<Longrightarrow>
   objectGet (filterStep regex t acc k0) k =
     (if k = k0 \<and> k \<noteq> ''__proto__''
      then (case objectGet t k of
              Some v \<Rightarrow> if regex k \<or> regex v then Some v else objectGet acc k
            | None \<Rightarrow> objectGet acc k)
      else objectGet acc k)"
  by (auto simp: filterStep_def assignProperty_def objectGet_objectSet_same
        objectGet_objectSet_other Let_def split: option.splits)

lemma objectGet_foldl_filterStep:
  "''__proto__'' \<notin> set (objectKeys acc) \<Longrightarrow>
   objectGet (foldl (filterStep regex t) acc ks) k =
     (if k \<in> set ks \<and> k \<noteq> ''__proto__''
      then (case objectGet t k of
              Some v \<Rightarrow> if regex k \<or> regex v then Some v else objectGet acc k
            | None \<Rightarrow> objectGet acc k)
      else objectGet acc k)"
proof (induction ks arbitrary: acc)
  case Nil
  then show ?case by simp
next
  case (Cons k0 ks)
  have inv: "''__proto__'' \<notin> set (objectKeys (filterStep regex t acc k0))"
    using Cons.prems by (rule proto_not_owned_filterStep)
  show ?case
    using Cons.prems
    by (simp add: Cons.IH [OF inv] objectGet_filterStep split: option.splits)
qed

lemma objectGet_filterTranslations:
  "objectGet (filterTranslations regex t) k =
     (if k = ''__proto__'' then None
      else case objectGet t k of
             None \<Rightarrow> None
           | Some v \<Rightarrow> if regex k \<or> regex v then Some v else None)"
proof -
  have inv: "''__proto__'' \<notin> set (objectKeys [])"
    by (simp add: objectKeys_def)
  show ?thesis
  proof (cases "objectGet t k")
    case None
    then show ?thesis
      by (simp add: filterTranslations_def objectGet_foldl_filterStep [OF inv] objectGet_empty)
  next
    case (Some v)
    then have "k \<in> set (objectKeys t)"
      using objectGet_None_iff [of t k] by auto
    then show ?thesis
      using Some
      by (simp add: filterTranslations_def objectGet_foldl_filterStep [OF inv] objectGet_empty)
  qed
qed

text \<open>
  What the code does: a blank term and a pattern that cannot be constructed give the
  working matrix; otherwise the result has the entries of the working matrix, same number,
  same codes, same order, and each entry owns exactly the pairs of the working entry whose
  key or raw value the pattern built from the escaped term matches, the key
  \<open>__proto__\<close> excepted, which is never kept.
\<close>

lemma search_filter_semantics:
  "(trim (searchQuery st) = [] \<longrightarrow> getSearchResults b st = modifiedDataSource st)
   \<and> (newRegExp_gi b (escapeRegExp (searchQuery st)) = None
        \<longrightarrow> getSearchResults b st = modifiedDataSource st)
   \<and> length (getSearchResults b st) = length (modifiedDataSource st)
   \<and> map LanguageTwoLetter (getSearchResults b st) = map LanguageTwoLetter (modifiedDataSource st)
   \<and> (trim (searchQuery st) \<noteq> [] \<and> newRegExp_gi b (escapeRegExp (searchQuery st)) = Some regex
        \<and> i < length (modifiedDataSource st)
      \<longrightarrow> (\<forall>k. objectGet (Translations (getSearchResults b st ! i)) k =
                 (if k = ''__proto__'' then None
                  else case objectGet (Translations (modifiedDataSource st ! i)) k of
                         None \<Rightarrow> None
                       | Some v \<Rightarrow> if regex k \<or> regex v then Some v else None)))"
  by (auto simp: getSearchResults_def objectGet_filterTranslations comp_def split: option.splits)

text \<open>
  C3. The claim fails on the code for the key \<open>__proto__\<close>. The entry owns
  \<open>__proto__\<close> with the value \<open>1.5 kg\<close>, which the pattern for the term \<open>1.5\<close>
  matches, yet the filtered entry keeps only \<open>k1\<close>: the assignment
  \<open>filteredTranslations[key] = value\<close> on the fresh object runs the inherited setter and
  stores nothing. The escaped dot keeps \<open>125 kg\<close> out, as the claim says.
\<close>

theorem matching_proto_key_is_dropped:
  "objectGet (Translations (modifiedDataSource protoKeySearchState ! 0)) ''__proto__'' = Some ''1.5 kg''
   \<and> escapeRegExp (searchQuery protoKeySearchState) = [CHR ''1'', CHR 0x5C, CHR ''.'', CHR ''5'']
   \<and> getSearchResults plainBrowser protoKeySearchState =
       [\<lparr>LanguageTwoLetter = ''en'', Translations = [(''k1'', ''1.5 kg net'')]\<rparr>]"
  by code_simp

subsection \<open>Sorting\<close>

lemma mset_insertSorted: "mset (insertSorted cmp x ys) = add_mset x (mset ys)"
  by (induction ys) auto

lemma mset_arraySort: "mset (arraySort cmp xs) = mset xs"
  by (induction xs) (auto simp: arraySort_def mset_insertSorted)

lemma set_insertSorted: "set (insertSorted cmp x ys) = insert x (set ys)"
  by (induction ys) auto

lemma ordered_insertSorted:
  assumes total: "\<And>a c. cmp a c \<le> 0 \<or> cmp c a \<le> 0"
      and trans: "\<And>a c d. cmp a c \<le> 0 \<Longrightarrow> cmp c d \<le> 0 \<Longrightarrow> cmp a d \<le> 0"
  shows "sorted_wrt (\<lambda>a c. cmp a c \<le> 0) ys
         \<Longrightarrow> sorted_wrt (\<lambda>a c. cmp a c \<le> 0) (insertSorted cmp x ys)"
proof (induction ys)
  case Nil
  then show ?case by simp
next
  case (Cons y ys)
  show ?case
  proof (cases "cmp x y \<le> 0")
    case True
    then have "\<forall>z \<in> set ys. cmp x z \<le> 0"
      using Cons.prems trans by auto
    then show ?thesis using True Cons.prems by simp
  next
    case False
    then have "cmp y x \<le> 0" using total [of x y] by simp
    then show ?thesis
      using False Cons by (auto simp: set_insertSorted)
  qed
qed

lemma ordered_arraySort:
  assumes "\<And>a c. cmp a c \<le> 0 \<or> cmp c a \<le> 0"
      and "\<And>a c d. cmp a c \<le> 0 \<Longrightarrow> cmp c d \<le> 0 \<Longrightarrow> cmp a d \<le> 0"
  shows "sorted_wrt (\<lambda>a c. cmp a c \<le> 0) (arraySort cmp xs)"
proof (induction xs)
  case Nil
  then show ?case by (simp add: arraySort_def)
next
  case (Cons x xs)
  have "arraySort cmp (x # xs) = insertSorted cmp x (arraySort cmp xs)"
    by (simp add: arraySort_def)
  then show ?case
    using ordered_insertSorted [of cmp "arraySort cmp xs" x] assms Cons.IH by simp
qed

lemma filter_insertSorted:
  assumes "\<And>y. P x \<Longrightarrow> P y \<Longrightarrow> cmp x y \<le> 0"
  shows "filter P (insertSorted cmp x ys) = (if P x then x # filter P ys else filter P ys)"
  using assms by (induction ys) auto

lemma filter_arraySort:
  assumes "\<And>x y. P x \<Longrightarrow> P y \<Longrightarrow> cmp x y \<le> 0"
  shows "filter P (arraySort cmp xs) = filter P xs"
proof (induction xs)
  case Nil
  then show ?case by (simp add: arraySort_def)
next
  case (Cons x xs)
  have "arraySort cmp (x # xs) = insertSorted cmp x (arraySort cmp xs)"
    by (simp add: arraySort_def)
  then show ?case
    using filter_insertSorted [of P x cmp "arraySort cmp xs"] assms Cons.IH by simp
qed

lemma compareKeys_le:
  "compareKeys b ds c d x y \<le> 0 \<longleftrightarrow>
     (if d = Asc then sortText b ds c x \<le> sortText b ds c y
      else sortText b ds c y \<le> sortText b ds c x)"
  by (auto simp: compareKeys_def Let_def)

text \<open>
  What the code does with a sort directive on an existing column: the keys come back as a
  permutation ordered, in the directive's direction, by the lower-cased rendered text of
  the value the working matrix owns in that column, and keys with equal text keep their
  relative order. A key the column does not own counts as the empty string, unless it
  names a member of \<open>Object.prototype\<close>, in which case it counts as that member's text.
\<close>

lemma sorting_orders_by_working_text:
  assumes "sortState st = Some (col, dir)"
      and "col < length (modifiedDataSource st)"
      and "rendered = (\<lambda>k. toLowerCase b (getTextFromHTML b
                         (case objectGet (Translations (modifiedDataSource st ! col)) k of
                            Some v \<Rightarrow> v
                          | None \<Rightarrow> if k \<in> set objectPrototypeNames
                                     then inheritedToString b k else [])))"
  shows "\<exists>sortedKeys. applySortingToKeys b st keys = Inr sortedKeys
           \<and> mset sortedKeys = mset keys
           \<and> sorted_wrt (\<lambda>keyA keyB. if dir = Asc then rendered keyA \<le> rendered keyB
                                       else rendered keyB \<le> rendered keyA) sortedKeys
           \<and> (\<forall>t. filter (\<lambda>k. rendered k = t) sortedKeys = filter (\<lambda>k. rendered k = t) keys)"
proof -
  let ?cmp = "compareKeys b (modifiedDataSource st) col dir"
  have rd: "sortText b (modifiedDataSource st) col = rendered"
    by (simp add: assms(3) sortText_def display_valueOrEmpty fun_eq_iff)
  have le: "\<And>x y. ?cmp x y \<le> 0 \<longleftrightarrow> (if dir = Asc then rendered x \<le> rendered y else rendered y \<le> rendered x)"
    by (simp add: compareKeys_le rd)
  have res: "applySortingToKeys b st keys = Inr (arraySort ?cmp keys)"
    using assms(1,2) by (simp add: applySortingToKeys_def)
  have total: "\<And>a c. ?cmp a c \<le> 0 \<or> ?cmp c a \<le> 0"
    unfolding le by auto
  have trans: "\<And>a c d. ?cmp a c \<le> 0 \<Longrightarrow> ?cmp c d \<le> 0 \<Longrightarrow> ?cmp a d \<le> 0"
    unfolding le by (auto split: if_splits)
  have "sorted_wrt (\<lambda>a c. ?cmp a c \<le> 0) (arraySort ?cmp keys)"
    using ordered_arraySort [of ?cmp keys] total trans by blast
  then have ord: "sorted_wrt (\<lambda>keyA keyB. if dir = Asc then rendered keyA \<le> rendered keyB
                                           else rendered keyB \<le> rendered keyA) (arraySort ?cmp keys)"
    by (simp add: le)
  have stable: "filter (\<lambda>k. rendered k = t) (arraySort ?cmp keys) = filter (\<lambda>k. rendered k = t) keys" for t
    by (rule filter_arraySort) (simp add: le)
  show ?thesis
    using res ord stable by (simp add: mset_arraySort)
qed

text \<open>
  C2. The claim fails on the code for a key that names a member of \<open>Object.prototype\<close>
  and that the sort column lacks. Sorting ascending on \<open>hr\<close>, which has \<open>zebra\<close> with
  \<open>Apple\<close> in bold and no \<open>toString\<close>: as the empty string \<open>toString\<close> would come first,
  but the comparator reads the inherited function, whose lower-cased text follows
  \<open>apple\<close>, and \<open>toString\<close> comes last.
\<close>

theorem absent_key_sorts_as_inherited_member:
  "objectGet (Translations (modifiedDataSource inheritedKeySortState ! 1)) ''toString'' = None
   \<and> sortText plainBrowser (modifiedDataSource inheritedKeySortState) 1 ''toString''
       = ''function tostring() { [native code] }''
   \<and> sortText plainBrowser (modifiedDataSource inheritedKeySortState) 1 ''zebra'' = ''apple''
   \<and> applySortingToKeys plainBrowser inheritedKeySortState [''toString'', ''zebra'']
       = Inr [''zebra'', ''toString'']"
  by code_simp

subsection \<open>Markup that has nothing to restore\<close>

lemma plain_blockEntry: "plainNode n \<Longrightarrow> set (blockEntry n) \<subseteq> {None}"
  by (cases n) (auto simp: Let_def)

lemma plain_allElements:
  "plainNode n \<Longrightarrow> concat (map inlineEntry (allElements pt n)) = []"
proof (induction pt n rule: allElements.induct)
  case (1 parentText tg as cs)
  have "\<forall>c \<in> set cs. concat (map inlineEntry (allElements (textContent (Element tg as cs)) c)) = []"
    using 1 by (auto simp: list_all_iff)
  then have "concat (map inlineEntry (concat (map (allElements (textContent (Element tg as cs))) cs))) = []"
    by (induction cs) auto
  then show ?case using "1.prems" by (auto simp: Let_def)
qed simp_all

lemma plain_markup_trivial_structure:
  assumes "list_all plainNode (domParse b markup)"
  shows "(\<forall>el \<in> set (blockElements (extractHTMLAttributes b markup)). el = None)
       \<and> inlineElements (extractHTMLAttributes b markup) = []"
proof -
  have "\<forall>n \<in> set (domParse b markup). concat (map inlineEntry (allElements pt n)) = []" for pt
    using assms plain_allElements by (auto simp: list_all_iff)
  then have "concat (map inlineEntry (concat (map (allElements pt) (domParse b markup)))) = []" for pt
    by (induction "domParse b markup") auto
  moreover have "\<forall>n \<in> set (domParse b markup). set (blockEntry n) \<subseteq> {None}"
    using assms plain_blockEntry by (auto simp: list_all_iff)
  ultimately show ?thesis
    by (auto simp: extractHTMLAttributes_def Let_def bodyElements_def)
qed

subsection \<open>Attributes\<close>







lemma childrenOf_restoreElement [simp]: "childrenOf (restoreElement tg recorded n) = childrenOf n"
  by (cases n) (simp_all add: Let_def)

subsection \<open>Reading and rewriting at a path\<close>

lemma childrenOf_withChildren:
  "childrenOf (withChildren n cs) = (case n of Element tg as cs' \<Rightarrow> cs | _ \<Rightarrow> [])"
  by (cases n) simp_all

lemma getAt_Nil [simp]: "getAt [] p = None"
  by (cases "([] :: node list, p)" rule: getAt.cases) auto



lemma shallow_withChildren [simp]: "shallow (withChildren n cs) = shallow n"
  by (cases n) simp_all



subsection \<open>Document order\<close>





lemma applyInline_no_match:
  "\<forall>q \<in> set (querySelectorAll inlineTags body). \<not> textMatches body (inlineText e) q
   \<Longrightarrow> applyInline body e = body"
  by (simp add: applyInline_def Let_def find_None_iff [THEN iffD2])



subsection \<open>The inline entries in \<open>reapplyHTMLAttributes\<close>\<close>








end
